theory Spec2Isabelle
  imports Main
begin

section \<open>Values, objects and thrown errors\<close>

text \<open>
  A JavaScript value as the form and the store hold it. Numbers are integers here; an
  object is the list \<^verbatim>\<open>Object.entries\<close> enumerates, in that order, so a well-formed
  object has distinct keys.
\<close>

datatype jsval =
    JUndefined
  | JNull
  | JBool bool
  | JNum int
  | JStr string
  | JArr "jsval list"
  | JObj "(string \<times> jsval) list"

type_synonym fields = "(string \<times> jsval) list"

text \<open>
  A thrown value, as far as the code looks at one: all it ever does with it is the
  string conversion of the template literal \<^verbatim>\<open>${error}\<close>. \<open>Thrown s\<close> is a value
  that converts to the text \<open>s\<close>, as every \<^verbatim>\<open>Error\<close> does. \<open>Unprintable e\<close> is a
  value whose conversion throws \<open>e\<close> in turn: a Symbol or an object without a
  prototype (a TypeError), an object whose \<^verbatim>\<open>toString\<close> throws.
\<close>

datatype thrown = Thrown string | Unprintable thrown

fun error_text :: "thrown \<Rightarrow> thrown + string" where
  "error_text (Thrown s) = Inr s"
| "error_text (Unprintable e) = Inl e"

function show_nat :: "nat \<Rightarrow> string" where
  "show_nat n =
     (if n < 10 then [char_of (48 + n)]
      else show_nat (n div 10) @ [char_of (48 + n mod 10)])"
  by pat_completeness auto
termination
  by (relation "measure (\<lambda>n. n)") auto

text \<open>
  \<^verbatim>\<open>Object.entries(values)\<close>: a TypeError for \<^verbatim>\<open>undefined\<close> and \<^verbatim>\<open>null\<close>,
  no entry for a boolean or a number, the indexed elements of a string or an array, the
  own entries of an object.
\<close>

fun object_entries :: "jsval \<Rightarrow> thrown + fields" where
  "object_entries JUndefined = Inl (Thrown ''TypeError: Cannot convert undefined or null to object'')"
| "object_entries JNull = Inl (Thrown ''TypeError: Cannot convert undefined or null to object'')"
| "object_entries (JBool b) = Inr []"
| "object_entries (JNum n) = Inr []"
| "object_entries (JStr s) = Inr (zip (map show_nat [0..<length s]) (map (\<lambda>c. JStr [c]) s))"
| "object_entries (JArr xs) = Inr (zip (map show_nat [0..<length xs]) xs)"
| "object_entries (JObj kvs) = Inr kvs"

text \<open>
  \<^verbatim>\<open>{ ...acc, [field]: value }\<close>: a copy of \<open>acc\<close> in which \<open>field\<close> holds
  \<open>value\<close>; an existing key keeps its place, a new key goes to the end.
\<close>

fun obj_set :: "fields \<Rightarrow> string \<Rightarrow> jsval \<Rightarrow> fields" where
  "obj_set [] k v = [(k, v)]"
| "obj_set ((k', v') # rest) k v =
     (if k' = k then (k, v) # rest else (k', v') # obj_set rest k v)"

section \<open>Field selection\<close>

text \<open>
  The callback of the \<^verbatim>\<open>reduce\<close> in \<^verbatim>\<open>filterIncludedOrExcludedFields\<close>. A list
  that is supplied is truthy, also when it is empty; \<open>None\<close> is \<^verbatim>\<open>undefined\<close>.
\<close>

fun filter_step ::
  "string list option \<Rightarrow> string list option \<Rightarrow> fields \<Rightarrow> string \<times> jsval \<Rightarrow> fields" where
  "filter_step included excluded acc (field, value) =
     (if (case included of None \<Rightarrow> False | Some inc \<Rightarrow> field \<notin> set inc) then acc
      else if (case excluded of None \<Rightarrow> False | Some exc \<Rightarrow> field \<in> set exc) then acc
      else obj_set acc field value)"

definition filterIncludedOrExcludedFields ::
  "jsval \<Rightarrow> string list option \<Rightarrow> string list option \<Rightarrow> thrown + fields" where
  "filterIncludedOrExcludedFields values included excluded =
     (case object_entries values of
        Inl e \<Rightarrow> Inl e
      | Inr entries \<Rightarrow> Inr (foldl (filter_step included excluded) [] entries))"

section \<open>Value transformation\<close>

text \<open>
  A \<^verbatim>\<open>Serializer\<close>: both functions are optional, and either may throw.
\<close>

record serializer_fns =
  serialize :: "(jsval \<Rightarrow> thrown + jsval) option"
  deserialize :: "(jsval \<Rightarrow> thrown + jsval) option"

type_synonym registry = "(string \<times> serializer_fns) list"

text \<open>
  The names every plain object inherits from \<^verbatim>\<open>Object.prototype\<close>. Each of them
  reads as a truthy built-in value that has neither a \<^verbatim>\<open>serialize\<close> nor a
  \<^verbatim>\<open>deserialize\<close> property.
\<close>

definition object_prototype_names :: "string list" where
  "object_prototype_names =
     [''constructor'', ''__defineGetter__'', ''__defineSetter__'', ''hasOwnProperty'',
      ''__lookupGetter__'', ''__lookupSetter__'', ''isPrototypeOf'',
      ''propertyIsEnumerable'', ''toString'', ''valueOf'', ''__proto__'',
      ''toLocaleString'']"

text \<open>
  The property read \<^verbatim>\<open>serializerRecord?.[field]\<close> on the registry, a plain object:
  an own entry first, then the prototype, else \<^verbatim>\<open>undefined\<close>.
\<close>

definition get_property :: "registry \<Rightarrow> string \<Rightarrow> serializer_fns option" where
  "get_property serializerRecord field =
     (case map_of serializerRecord field of
        Some fieldSerializer \<Rightarrow> Some fieldSerializer
      | None \<Rightarrow>
          if field \<in> set object_prototype_names
          then Some \<lparr>serialize = None, deserialize = None\<rparr>
          else None)"

text \<open>
  The callback of the \<^verbatim>\<open>reduce\<close> in \<^verbatim>\<open>transformValues\<close>; once a transform
  function has thrown, the exception is all that is left.
\<close>

fun transform_step ::
  "registry \<Rightarrow> bool \<Rightarrow> thrown + fields \<Rightarrow> string \<times> jsval \<Rightarrow> thrown + fields" where
  "transform_step serializerRecord des (Inl e) (field, value) = Inl e"
| "transform_step serializerRecord des (Inr acc) (field, value) =
     (case get_property serializerRecord field of
        None \<Rightarrow> Inr (obj_set acc field value)
      | Some fieldSerializer \<Rightarrow>
          (case (if des then deserialize fieldSerializer else serialize fieldSerializer) of
             None \<Rightarrow> Inr acc
           | Some transformFn \<Rightarrow>
               (case transformFn value of
                  Inl e \<Rightarrow> Inl e
                | Inr transformedValue \<Rightarrow> Inr (obj_set acc field transformedValue))))"

definition transformValues :: "jsval \<Rightarrow> registry \<Rightarrow> bool \<Rightarrow> thrown + fields" where
  "transformValues values serializer des =
     (case object_entries values of
        Inl e \<Rightarrow> Inl e
      | Inr entries \<Rightarrow> foldl (transform_step serializer des) (Inr []) entries)"

section \<open>The storage adapter and its shim\<close>

text \<open>
  What a call of the underlying store comes to: it returns (or its promise resolves), it
  throws synchronously, or its promise rejects. The store's own state is \<open>'s\<close>.
\<close>

datatype 'a outcome = Returned 'a | Threw thrown | Rejected thrown

record 's adapter =
  getItem :: "string \<Rightarrow> 's \<Rightarrow> string option outcome \<times> 's"
  setItem :: "string \<Rightarrow> string \<Rightarrow> 's \<Rightarrow> unit outcome \<times> 's"
  removeItem :: "string \<Rightarrow> 's \<Rightarrow> unit outcome \<times> 's"

text \<open>
  \<^verbatim>\<open>await f(...)\<close> inside a \<^verbatim>\<open>try\<close>: a synchronous throw and a rejection both
  arrive at the \<^verbatim>\<open>catch\<close>.
\<close>

fun awaited :: "'a outcome \<Rightarrow> thrown + 'a" where
  "awaited (Returned v) = Inr v"
| "awaited (Threw e) = Inl e"
| "awaited (Rejected e) = Inl e"

datatype callback_call = OnSave fields | OnRestore fields

text \<open>
  The state one hook instance works on: its two flags, the bound form, the store behind
  the adapter, the lines written with \<^verbatim>\<open>console.error\<close> and the calls made to the
  two callbacks, oldest first.
\<close>

record ('s, 'f) hook =
  isRestored :: bool
  isLoading :: bool
  form :: 'f
  store :: 's
  console_error :: "string list"
  callback_calls :: "callback_call list"

record set_value_config =
  shouldDirty :: "bool option"
  shouldTouch :: "bool option"
  shouldValidate :: "bool option"

text \<open>
  The arguments of \<^verbatim>\<open>useFormStorage\<close>: the key, the two members of the form the code
  uses, the options, and the two functions of the global \<^verbatim>\<open>JSON\<close>. A callback
  returns the value it throws, if it throws. \<^verbatim>\<open>JSON.parse\<close> of a string throws
  nothing but a SyntaxError; \<open>Inl\<close> holds the text \<^verbatim>\<open>${error}\<close> gives for it.
\<close>

record ('s, 'f) hook_args =
  key :: string
  setValue :: "string \<Rightarrow> jsval \<Rightarrow> set_value_config \<Rightarrow> 'f \<Rightarrow> 'f"
  getValues :: "'f \<Rightarrow> jsval"
  storage :: "'s adapter"
  included :: "string list option"
  excluded :: "string list option"
  onRestore :: "(fields \<Rightarrow> thrown option) option"
  onSave :: "(fields \<Rightarrow> thrown option) option"
  dirty :: "bool option"
  touched :: "bool option"
  validate :: "bool option"
  serializer :: registry
  JSON_parse :: "string \<Rightarrow> string + jsval"
  JSON_stringify :: "jsval \<Rightarrow> thrown + string"

text \<open>
  \<^verbatim>\<open>console.error(`prefix${error}`)\<close>: the line is written when the error converts to
  a string; when the conversion throws, nothing is written and that exception leaves
  the \<^verbatim>\<open>catch\<close> block.
\<close>

definition log_error ::
  "string \<Rightarrow> thrown \<Rightarrow> ('s, 'f) hook \<Rightarrow> (thrown + unit) \<times> ('s, 'f) hook" where
  "log_error prefix e h =
     (case error_text e of
        Inr text \<Rightarrow> (Inr (), h\<lparr>console_error := console_error h @ [prefix @ text]\<rparr>)
      | Inl e' \<Rightarrow> (Inl e', h))"

definition storageAdapter_setItem ::
  "('s, 'f) hook_args \<Rightarrow> string \<Rightarrow> string \<Rightarrow> ('s, 'f) hook \<Rightarrow> (thrown + unit) \<times> ('s, 'f) hook" where
  "storageAdapter_setItem a k v h =
     (case setItem (storage a) k v (store h) of (r, st) \<Rightarrow>
        (case awaited r of
           Inr u \<Rightarrow> (Inr (), h\<lparr>store := st\<rparr>)
         | Inl e \<Rightarrow>
             log_error ''[FORM-STORAGE] Failed to save data to storage: '' e
               (h\<lparr>store := st\<rparr>)))"

definition storageAdapter_getItem ::
  "('s, 'f) hook_args \<Rightarrow> string \<Rightarrow> ('s, 'f) hook \<Rightarrow> (thrown + string option) \<times> ('s, 'f) hook" where
  "storageAdapter_getItem a k h =
     (case getItem (storage a) k (store h) of (r, st) \<Rightarrow>
        (case awaited r of
           Inr v \<Rightarrow> (Inr v, h\<lparr>store := st\<rparr>)
         | Inl e \<Rightarrow>
             (case log_error ''[FORM-STORAGE] Failed to restore data from storage: '' e
                     (h\<lparr>store := st\<rparr>) of
                (Inr u, h1) \<Rightarrow> (Inr None, h1)
              | (Inl e', h1) \<Rightarrow> (Inl e', h1))))"

definition storageAdapter_removeItem ::
  "('s, 'f) hook_args \<Rightarrow> string \<Rightarrow> ('s, 'f) hook \<Rightarrow> (thrown + unit) \<times> ('s, 'f) hook" where
  "storageAdapter_removeItem a k h =
     (case removeItem (storage a) k (store h) of (r, st) \<Rightarrow>
        (case awaited r of
           Inr u \<Rightarrow> (Inr (), h\<lparr>store := st\<rparr>)
         | Inl e \<Rightarrow>
             log_error ''[FORM-STORAGE] Failed to clear storage: '' e
               (h\<lparr>store := st\<rparr>)))"

section \<open>The hook\<close>

text \<open>
  \<^verbatim>\<open>onSave?.(x)\<close> and \<^verbatim>\<open>onRestore?.(x)\<close>: nothing happens without a callback; with
  one, the call is recorded and what it throws continues as an exception.
\<close>

definition invoke ::
  "(fields \<Rightarrow> thrown option) option \<Rightarrow> (fields \<Rightarrow> callback_call) \<Rightarrow> fields \<Rightarrow>
   ('s, 'f) hook \<Rightarrow> (thrown + unit) \<times> ('s, 'f) hook" where
  "invoke cb tag arg h =
     (case cb of
        None \<Rightarrow> (Inr (), h)
      | Some f \<Rightarrow>
          ((case f arg of None \<Rightarrow> Inr () | Some e \<Rightarrow> Inl e),
           h\<lparr>callback_calls := callback_calls h @ [tag arg]\<rparr>))"

text \<open>The \<^verbatim>\<open>try\<close> block of \<^verbatim>\<open>saveToStorage\<close>.\<close>

definition save_try ::
  "('s, 'f) hook_args \<Rightarrow> jsval \<Rightarrow> ('s, 'f) hook \<Rightarrow> (thrown + unit) \<times> ('s, 'f) hook" where
  "save_try a values h =
     (case filterIncludedOrExcludedFields values (included a) (excluded a) of
        Inl e \<Rightarrow> (Inl e, h)
      | Inr valuesToStore \<Rightarrow>
          (case transformValues (JObj valuesToStore) (serializer a) False of
             Inl e \<Rightarrow> (Inl e, h)
           | Inr serialized \<Rightarrow>
               (case JSON_stringify a (JObj serialized) of
                  Inl e \<Rightarrow> (Inl e, h)
                | Inr text \<Rightarrow>
                    (case storageAdapter_setItem a (key a) text h of
                       (Inl e, h1) \<Rightarrow> (Inl e, h1)
                     | (Inr u, h1) \<Rightarrow> invoke (onSave a) OnSave valuesToStore h1))))"

definition saveToStorage ::
  "('s, 'f) hook_args \<Rightarrow> jsval \<Rightarrow> ('s, 'f) hook \<Rightarrow> (thrown + unit) \<times> ('s, 'f) hook" where
  "saveToStorage a values h =
     (case save_try a values h of
        (Inr u, h1) \<Rightarrow> (Inr (), h1)
      | (Inl e, h1) \<Rightarrow> log_error ''[FORM-STORAGE] Failed to save data: '' e h1)"

definition write_fields ::
  "('s, 'f) hook_args \<Rightarrow> fields \<Rightarrow> 'f \<Rightarrow> 'f" where
  "write_fields a deserializedValues f =
     foldl (\<lambda>f' (field, value).
              setValue a field value
                \<lparr>shouldDirty = dirty a, shouldTouch = touched a, shouldValidate = validate a\<rparr> f')
           f deserializedValues"

text \<open>The \<^verbatim>\<open>try\<close> block of \<^verbatim>\<open>restoreDataFromStorage\<close>; the empty string is falsy.\<close>

definition restore_try ::
  "('s, 'f) hook_args \<Rightarrow> ('s, 'f) hook \<Rightarrow> (thrown + unit) \<times> ('s, 'f) hook" where
  "restore_try a h =
     (case storageAdapter_getItem a (key a) h of
        (Inl e, h1) \<Rightarrow> (Inl e, h1)
      | (Inr storedValue, h1) \<Rightarrow>
          (case storedValue of
             None \<Rightarrow> (Inr (), h1)
           | Some text \<Rightarrow>
               if text = [] then (Inr (), h1)
               else
                 (case JSON_parse a text of
                    Inl syntaxError \<Rightarrow> (Inl (Thrown syntaxError), h1)
                  | Inr parsedValue \<Rightarrow>
                      (case filterIncludedOrExcludedFields parsedValue (included a) (excluded a) of
                         Inl e \<Rightarrow> (Inl e, h1)
                       | Inr valuesToRestore \<Rightarrow>
                           (case transformValues (JObj valuesToRestore) (serializer a) True of
                              Inl e \<Rightarrow> (Inl e, h1)
                            | Inr deserializedValues \<Rightarrow>
                                invoke (onRestore a) OnRestore valuesToRestore
                                  (h1\<lparr>form := write_fields a deserializedValues (form h1),
                                       isRestored := True\<rparr>))))))"

definition restoreDataFromStorage ::
  "('s, 'f) hook_args \<Rightarrow> ('s, 'f) hook \<Rightarrow> (thrown + unit) \<times> ('s, 'f) hook" where
  "restoreDataFromStorage a h =
     (case restore_try a (h\<lparr>isLoading := True\<rparr>) of
        (Inr u, h1) \<Rightarrow> (Inr (), h1\<lparr>isLoading := False\<rparr>)
      | (Inl e, h1) \<Rightarrow>
          (case log_error ''[FORM-STORAGE] Failed to restore data from storage: '' e h1 of
             (r, h2) \<Rightarrow> (r, h2\<lparr>isLoading := False\<rparr>)))"

text \<open>
  The three operations the hook returns. In the result, \<open>Inr\<close> is a promise that
  resolves and \<open>Inl\<close> one that rejects.
\<close>

definition save :: "('s, 'f) hook_args \<Rightarrow> ('s, 'f) hook \<Rightarrow> (thrown + unit) \<times> ('s, 'f) hook" where
  "save a h = saveToStorage a (getValues a (form h)) h"

definition clear :: "('s, 'f) hook_args \<Rightarrow> ('s, 'f) hook \<Rightarrow> (thrown + unit) \<times> ('s, 'f) hook" where
  "clear a h = storageAdapter_removeItem a (key a) h"

definition restore :: "('s, 'f) hook_args \<Rightarrow> ('s, 'f) hook \<Rightarrow> (thrown + unit) \<times> ('s, 'f) hook" where
  "restore a h = restoreDataFromStorage a h"

section \<open>The debounce wrapper\<close>












section \<open>Example inputs\<close>

text \<open>
  An in-memory store with switches that make an operation reject, after the mock remote
  store of the test suite.
\<close>

record mock_options =
  shouldFailRestore :: bool
  shouldFailSave :: bool
  shouldFailClear :: bool

definition mock_store :: "mock_options \<Rightarrow> (string \<rightharpoonup> string) adapter" where
  "mock_store options =
     \<lparr>getItem = (\<lambda>k memory.
         if shouldFailRestore options
         then (Rejected (Thrown ''Error: Simulated restore failure''), memory)
         else (Returned (memory k), memory)),
      setItem = (\<lambda>k v memory.
         if shouldFailSave options
         then (Rejected (Thrown ''Error: Simulated save failure''), memory)
         else (Returned (), memory(k \<mapsto> v))),
      removeItem = (\<lambda>k memory.
         if shouldFailClear options
         then (Rejected (Thrown ''Error: Simulated clear failure''), memory)
         else (Returned (), memory(k := None)))\<rparr>"

text \<open>
  A store all of whose operations reject with the given value, and a Symbol as such a
  value.
\<close>

definition rejecting_store :: "thrown \<Rightarrow> (string \<rightharpoonup> string) adapter" where
  "rejecting_store e =
     \<lparr>getItem = (\<lambda>k memory. (Rejected e, memory)),
      setItem = (\<lambda>k v memory. (Rejected e, memory)),
      removeItem = (\<lambda>k memory. (Rejected e, memory))\<rparr>"

definition a_symbol :: thrown where
  "a_symbol = Unprintable (Thrown ''TypeError: Cannot convert a Symbol value to a string'')"

definition no_failure :: mock_options where
  "no_failure = \<lparr>shouldFailRestore = False, shouldFailSave = False, shouldFailClear = False\<rparr>"

definition all_fail :: mock_options where
  "all_fail = \<lparr>shouldFailRestore = True, shouldFailSave = True, shouldFailClear = True\<rparr>"

text \<open>
  The values of \<^verbatim>\<open>JSON.parse\<close> and \<^verbatim>\<open>JSON.stringify\<close> on the texts and objects
  of the examples.
\<close>

definition example_parse :: "string \<Rightarrow> string + jsval" where
  \<open>example_parse text =
     (if text = ''{"n":10}'' then Inr (JObj [(''n'', JNum 10)])
      else if text = ''{"name":"Ann"}'' then Inr (JObj [(''name'', JStr ''Ann'')])
      else Inl ''SyntaxError: Unexpected token'')\<close>

definition example_stringify :: "jsval \<Rightarrow> thrown + string" where
  \<open>example_stringify v =
     (if v = JObj [(''name'', JStr ''Ann'')] then Inr ''{"name":"Ann"}''
      else if v = JObj [(''n'', JNum 11)] then Inr ''{"n":11}''
      else Inr ''{}'')\<close>

text \<open>A form that is a flat object, and a hook over it with the defaults of the options.\<close>

definition example_args :: "mock_options \<Rightarrow> (string \<rightharpoonup> string, fields) hook_args" where
  "example_args options =
     \<lparr>key = ''testKey'',
      setValue = (\<lambda>field value config f. obj_set f field value),
      getValues = JObj,
      storage = mock_store options,
      included = None,
      excluded = None,
      onRestore = Some (\<lambda>values. None),
      onSave = Some (\<lambda>values. None),
      dirty = None,
      touched = None,
      validate = None,
      serializer = [],
      JSON_parse = example_parse,
      JSON_stringify = example_stringify\<rparr>"

definition example_hook :: "(string \<rightharpoonup> string) \<Rightarrow> fields \<Rightarrow> (string \<rightharpoonup> string, fields) hook" where
  "example_hook memory f =
     \<lparr>isRestored = False, isLoading = False, form = f, store = memory,
      console_error = [], callback_calls = []\<rparr>"

text \<open>The serializer of the test suite for a number: one more in the store.\<close>

definition plus_one :: serializer_fns where
  "plus_one =
     \<lparr>serialize = Some (\<lambda>v. case v of JNum n \<Rightarrow> Inr (JNum (n + 1)) | _ \<Rightarrow> Inr v),
      deserialize = Some (\<lambda>v. case v of JNum n \<Rightarrow> Inr (JNum (n - 1)) | _ \<Rightarrow> Inr v)\<rparr>"

definition serialize_only :: serializer_fns where
  "serialize_only =
     \<lparr>serialize = Some (\<lambda>v. Inr v), deserialize = None\<rparr>"

section \<open>Properties of selection\<close>

lemma obj_set_fresh:
  "k \<notin> fst ` set acc \<Longrightarrow> obj_set acc k v = acc @ [(k, v)]"
  by (induction acc) auto

lemma foldl_filter_step:
  "distinct (map fst es) \<Longrightarrow> fst ` set es \<inter> fst ` set acc = {} \<Longrightarrow>
   foldl (filter_step inc exc) acc es =
     acc @ filter (\<lambda>(k, v).
        (case inc of None \<Rightarrow> True | Some i \<Rightarrow> k \<in> set i) \<and>
        (case exc of None \<Rightarrow> True | Some x \<Rightarrow> k \<notin> set x)) es"
proof (induction es arbitrary: acc)
  case Nil
  then show ?case by simp
next
  case (Cons e es)
  obtain k v where e: "e = (k, v)" by (cases e)
  from Cons.prems have fresh: "k \<notin> fst ` set acc" and d: "distinct (map fst es)"
    and knew: "k \<notin> fst ` set es"
    by (auto simp: e)
  show ?case
  proof (cases "(case inc of None \<Rightarrow> True | Some i \<Rightarrow> k \<in> set i) \<and>
                (case exc of None \<Rightarrow> True | Some x \<Rightarrow> k \<notin> set x)")
    case True
    then have step: "filter_step inc exc acc (k, v) = acc @ [(k, v)]"
      using fresh by (auto simp: obj_set_fresh split: option.splits)
    have "fst ` set es \<inter> fst ` set (acc @ [(k, v)]) = {}"
      using Cons.prems knew by (auto simp: e)
    from Cons.IH [OF d this] True show ?thesis
      by (simp add: e step del: filter_step.simps)
  next
    case False
    then have step: "filter_step inc exc acc (k, v) = acc"
      by (auto split: option.splits)
    have "fst ` set es \<inter> fst ` set acc = {}"
      using Cons.prems by (auto simp: e)
    from Cons.IH [OF d this] False show ?thesis
      by (simp add: e step del: filter_step.simps)
  qed
qed

lemma select_object:
  "distinct (map fst kvs) \<Longrightarrow>
   filterIncludedOrExcludedFields (JObj kvs) inc exc =
     Inr (filter (\<lambda>(k, v).
        (case inc of None \<Rightarrow> True | Some i \<Rightarrow> k \<in> set i) \<and>
        (case exc of None \<Rightarrow> True | Some x \<Rightarrow> k \<notin> set x)) kvs)"
  using foldl_filter_step [of kvs "[]" inc exc]
  by (simp add: filterIncludedOrExcludedFields_def)

text \<open>
  C6. With at most one list supplied, selection over an object never throws: by
  \<open>included = K\<close> it returns exactly the entries whose key is in \<open>K\<close>, by
  \<open>excluded = K\<close> exactly those whose key is not in \<open>K\<close>, in both cases in the order
  of the object, and with neither list it returns every entry. A name in \<open>K\<close> that is
  not a key of the object changes nothing.
\<close>

theorem select_by_one_list:
  "distinct (map fst V) \<Longrightarrow>
     filterIncludedOrExcludedFields (JObj V) (Some K) None =
       Inr (filter (\<lambda>(k, v). k \<in> set K) V) \<and>
     filterIncludedOrExcludedFields (JObj V) None (Some K) =
       Inr (filter (\<lambda>(k, v). k \<notin> set K) V) \<and>
     filterIncludedOrExcludedFields (JObj V) None None = Inr V"
  by (simp add: select_object)

theorem select_by_one_list_witness:
  "distinct (map fst [(''name'', JStr ''John''), (''email'', JStr ''j@x.com''), (''number'', JNum 2)]) \<and>
   filterIncludedOrExcludedFields
     (JObj [(''name'', JStr ''John''), (''email'', JStr ''j@x.com''), (''number'', JNum 2)])
     (Some [''number'', ''zip'', ''name'']) None =
       Inr [(''name'', JStr ''John''), (''number'', JNum 2)] \<and>
   filterIncludedOrExcludedFields
     (JObj [(''name'', JStr ''John''), (''email'', JStr ''j@x.com''), (''number'', JNum 2)])
     None (Some [''number'', ''zip'', ''name'']) =
       Inr [(''email'', JStr ''j@x.com'')]"
  using select_by_one_list
    [of "[(''name'', JStr ''John''), (''email'', JStr ''j@x.com''), (''number'', JNum 2)]"
        "[''number'', ''zip'', ''name'']"]
  by simp

text \<open>
  C9. With both lists supplied, both filters apply: the result holds exactly the
  entries whose key is in the included list and not in the excluded list.
\<close>

theorem select_by_both_lists:
  "distinct (map fst V) \<Longrightarrow>
     filterIncludedOrExcludedFields (JObj V) (Some I) (Some E) =
       Inr (filter (\<lambda>(k, v). k \<in> set I \<and> k \<notin> set E) V)"
  by (simp add: select_object)

theorem select_by_both_lists_witness:
  "distinct (map fst [(''name'', JStr ''John''), (''email'', JStr ''j@x.com''), (''number'', JNum 2)]) \<and>
   filterIncludedOrExcludedFields
     (JObj [(''name'', JStr ''John''), (''email'', JStr ''j@x.com''), (''number'', JNum 2)])
     (Some [''name'', ''email'']) (Some [''email'']) =
       Inr [(''name'', JStr ''John'')]"
  using select_by_both_lists
    [of "[(''name'', JStr ''John''), (''email'', JStr ''j@x.com''), (''number'', JNum 2)]"
        "[''name'', ''email'']" "[''email'']"]
  by simp

section \<open>Properties of transformation\<close>

text \<open>
  With the empty registry, an object none of whose keys is a name of
  \<^verbatim>\<open>Object.prototype\<close> is returned as it is.
\<close>

lemma foldl_transform_step_empty:
  "distinct (map fst es) \<Longrightarrow> fst ` set es \<inter> fst ` set acc = {} \<Longrightarrow>
   fst ` set es \<inter> set object_prototype_names = {} \<Longrightarrow>
   foldl (transform_step [] des) (Inr acc) es = Inr (acc @ es)"
proof (induction es arbitrary: acc)
  case Nil
  then show ?case by simp
next
  case (Cons e es)
  obtain k v where e: "e = (k, v)" by (cases e)
  from Cons.prems have fresh: "k \<notin> fst ` set acc" and own: "k \<notin> set object_prototype_names"
    by (auto simp: e)
  then have step: "transform_step [] des (Inr acc) (k, v) = Inr (acc @ [(k, v)])"
    by (simp add: get_property_def obj_set_fresh)
  have "fst ` set es \<inter> fst ` set (acc @ [(k, v)]) = {}"
    using Cons.prems by (auto simp: e)
  moreover have "distinct (map fst es)" and "fst ` set es \<inter> set object_prototype_names = {}"
    using Cons.prems by (auto simp: e)
  ultimately have "foldl (transform_step [] des) (Inr (acc @ [(k, v)])) es = Inr ((acc @ [(k, v)]) @ es)"
    using Cons.IH by blast
  then show ?case
    by (simp add: e step del: transform_step.simps)
qed

lemma transform_empty_registry:
  "distinct (map fst V) \<Longrightarrow> fst ` set V \<inter> set object_prototype_names = {} \<Longrightarrow>
   transformValues (JObj V) [] des = Inr V"
  using foldl_transform_step_empty [of V "[]" des]
  by (simp add: transformValues_def)

text \<open>
  C5. The registry below has entries for \<open>n\<close> and \<open>name\<close> only. In the restore
  direction \<open>n\<close> is transformed and \<open>name\<close>, whose entry has no \<open>deserialize\<close>, is
  omitted, as claimed; but \<open>toString\<close>, for which the registry has no entry, does
  not pass through: the property read finds the inherited \<^verbatim>\<open>Object.prototype.toString\<close>,
  which has no \<open>deserialize\<close>, and the key is omitted too.
\<close>

theorem transform_drops_inherited_name:
  "transformValues (JObj [(''toString'', JStr ''x''), (''n'', JNum 5), (''name'', JStr ''a'')])
     [(''n'', plus_one), (''name'', serialize_only)] True = Inr [(''n'', JNum 4)] \<and>
   map_of [(''n'', plus_one), (''name'', serialize_only)] ''toString'' = None"
  by (simp add: transformValues_def get_property_def object_prototype_names_def
      plus_one_def serialize_only_def)

text \<open>
  C8. With the empty registry the transformation is not the identity in either
  direction on an object that has the key \<open>constructor\<close>: the key is dropped.
\<close>

theorem transform_empty_registry_not_identity:
  "transformValues (JObj [(''constructor'', JNum 1), (''n'', JNum 2)]) [] False =
     Inr [(''n'', JNum 2)] \<and>
   transformValues (JObj [(''constructor'', JNum 1), (''n'', JNum 2)]) [] True =
     Inr [(''n'', JNum 2)]"
  by (simp add: transformValues_def get_property_def object_prototype_names_def)

section \<open>Properties of the shim and of the hook\<close>

lemma log_error_printable:
  "log_error prefix (Thrown msg) h =
     (Inr (), h\<lparr>console_error := console_error h @ [prefix @ msg]\<rparr>)"
  by (simp add: log_error_def)

lemma log_error_unprintable: "log_error prefix (Unprintable e) h = (Inl e, h)"
  by (simp add: log_error_def)

lemma log_error_keeps_loading: "isLoading (snd (log_error prefix e h)) = isLoading h"
  by (simp add: log_error_def split: sum.splits)

lemma restoreDataFromStorage_not_loading: "isLoading (snd (restoreDataFromStorage a h)) = False"
  by (simp add: restoreDataFromStorage_def split: prod.splits sum.splits)

text \<open>
  A failure of the store whose value converts to a string is contained by each
  operation of the shim, with one line on the console that names the operation.
\<close>

lemma printable_failures_contained:
  "(fst (getItem (storage a) k (store h)) = Threw (Thrown msg) \<or>
    fst (getItem (storage a) k (store h)) = Rejected (Thrown msg) \<longrightarrow>
      storageAdapter_getItem a k h =
        (Inr None,
         h\<lparr>store := snd (getItem (storage a) k (store h)),
           console_error := console_error h @
             [''[FORM-STORAGE] Failed to restore data from storage: '' @ msg]\<rparr>)) \<and>
   (fst (setItem (storage a) k v (store h)) = Threw (Thrown msg) \<or>
    fst (setItem (storage a) k v (store h)) = Rejected (Thrown msg) \<longrightarrow>
      storageAdapter_setItem a k v h =
        (Inr (),
         h\<lparr>store := snd (setItem (storage a) k v (store h)),
           console_error := console_error h @
             [''[FORM-STORAGE] Failed to save data to storage: '' @ msg]\<rparr>)) \<and>
   (fst (removeItem (storage a) k (store h)) = Threw (Thrown msg) \<or>
    fst (removeItem (storage a) k (store h)) = Rejected (Thrown msg) \<longrightarrow>
      storageAdapter_removeItem a k h =
        (Inr (),
         h\<lparr>store := snd (removeItem (storage a) k (store h)),
           console_error := console_error h @
             [''[FORM-STORAGE] Failed to clear storage: '' @ msg]\<rparr>))"
proof -
  have g: "fst (getItem (storage a) k (store h)) = Threw (Thrown msg) \<or>
    fst (getItem (storage a) k (store h)) = Rejected (Thrown msg) \<longrightarrow>
      storageAdapter_getItem a k h =
        (Inr None,
         h\<lparr>store := snd (getItem (storage a) k (store h)),
           console_error := console_error h @
             [''[FORM-STORAGE] Failed to restore data from storage: '' @ msg]\<rparr>)"
    by (cases "getItem (storage a) k (store h)")
       (auto simp: storageAdapter_getItem_def log_error_def)
  have s: "fst (setItem (storage a) k v (store h)) = Threw (Thrown msg) \<or>
    fst (setItem (storage a) k v (store h)) = Rejected (Thrown msg) \<longrightarrow>
      storageAdapter_setItem a k v h =
        (Inr (),
         h\<lparr>store := snd (setItem (storage a) k v (store h)),
           console_error := console_error h @
             [''[FORM-STORAGE] Failed to save data to storage: '' @ msg]\<rparr>)"
    by (cases "setItem (storage a) k v (store h)")
       (auto simp: storageAdapter_setItem_def log_error_def)
  have r: "fst (removeItem (storage a) k (store h)) = Threw (Thrown msg) \<or>
    fst (removeItem (storage a) k (store h)) = Rejected (Thrown msg) \<longrightarrow>
      storageAdapter_removeItem a k h =
        (Inr (),
         h\<lparr>store := snd (removeItem (storage a) k (store h)),
           console_error := console_error h @
             [''[FORM-STORAGE] Failed to clear storage: '' @ msg]\<rparr>)"
    by (cases "removeItem (storage a) k (store h)")
       (auto simp: storageAdapter_removeItem_def log_error_def)
  from g s r show ?thesis by blast
qed

text \<open>
  C3. A store that rejects with a Symbol is not contained. The string conversion in
  the \<^verbatim>\<open>catch\<close> block of each shim operation throws a TypeError, so the operation
  rejects and writes no line to the console; \<open>clear\<close>, which is the shim's
  \<open>removeItem\<close> and nothing more, rejects with it, and \<open>save\<close> rejects in the same
  way when a \<open>serialize\<close> function throws a Symbol.
\<close>

theorem symbol_rejection_escapes:
  "storageAdapter_getItem ((example_args no_failure)\<lparr>storage := rejecting_store a_symbol\<rparr>)
       ''testKey'' (example_hook Map.empty []) =
     (Inl (Thrown ''TypeError: Cannot convert a Symbol value to a string''),
      example_hook Map.empty []) \<and>
   storageAdapter_setItem ((example_args no_failure)\<lparr>storage := rejecting_store a_symbol\<rparr>)
       ''testKey'' ''{}'' (example_hook Map.empty []) =
     (Inl (Thrown ''TypeError: Cannot convert a Symbol value to a string''),
      example_hook Map.empty []) \<and>
   clear ((example_args no_failure)\<lparr>storage := rejecting_store a_symbol\<rparr>)
       (example_hook Map.empty []) =
     (Inl (Thrown ''TypeError: Cannot convert a Symbol value to a string''),
      example_hook Map.empty []) \<and>
   save ((example_args no_failure)
           \<lparr>serializer := [(''n'', \<lparr>serialize = Some (\<lambda>v. Inl a_symbol), deserialize = None\<rparr>)]\<rparr>)
       (example_hook Map.empty [(''n'', JNum 1)]) =
     (Inl (Thrown ''TypeError: Cannot convert a Symbol value to a string''),
      example_hook Map.empty [(''n'', JNum 1)])"
  by (simp add: example_args_def no_failure_def mock_store_def rejecting_store_def a_symbol_def
      example_hook_def clear_def save_def saveToStorage_def save_try_def
      storageAdapter_getItem_def storageAdapter_setItem_def storageAdapter_removeItem_def
      log_error_def filterIncludedOrExcludedFields_def transformValues_def get_property_def)

text \<open>
  C10. A store that returns the empty string is treated as one that returns
  \<^verbatim>\<open>null\<close>: in both cases \<open>restore\<close> resolves and changes nothing but the store's own
  state and \<open>isLoading\<close>, which ends false. The form, \<open>isRestored\<close>, the console and
  the callbacks are as before, and the result does not depend on \<^verbatim>\<open>JSON.parse\<close>.
\<close>

theorem empty_string_is_absent:
  "fst (getItem (storage a) (key a) (store h)) = Returned (Some []) \<or>
   fst (getItem (storage a) (key a) (store h)) = Returned None \<Longrightarrow>
   restore a h =
     (Inr (), h\<lparr>store := snd (getItem (storage a) (key a) (store h)), isLoading := False\<rparr>)"
  by (cases "getItem (storage a) (key a) (store h)")
     (auto simp: restore_def restoreDataFromStorage_def restore_try_def storageAdapter_getItem_def)

theorem empty_string_is_absent_witness:
  \<open>fst (getItem (storage (example_args no_failure)) (key (example_args no_failure))
        (store (example_hook [''testKey'' \<mapsto> ''''] [(''name'', JStr '''')]))) = Returned (Some []) \<and>
   restore (example_args no_failure) (example_hook [''testKey'' \<mapsto> ''''] [(''name'', JStr '''')]) =
     (Inr (), example_hook [''testKey'' \<mapsto> ''''] [(''name'', JStr '''')])\<close>
  using empty_string_is_absent
    [of "example_args no_failure" "example_hook [''testKey'' \<mapsto> ''''] [(''name'', JStr '''')]"]
  by (simp add: example_args_def no_failure_def mock_store_def example_hook_def)

text \<open>
  C4, as stated, fails on the empty string: it is a stored text that is not valid
  JSON, and \<open>restore\<close> writes no line to the console for it.
\<close>

theorem empty_string_no_diagnostic:
  "getItem (storage (example_args no_failure)) (key (example_args no_failure))
     (store (example_hook [''testKey'' \<mapsto> ''''] [])) =
       (Returned (Some ''''), [''testKey'' \<mapsto> '''']) \<and>
   JSON_parse (example_args no_failure) '''' = Inl ''SyntaxError: Unexpected token'' \<and>
   console_error (snd (restore (example_args no_failure) (example_hook [''testKey'' \<mapsto> ''''] []))) = []"
  by (simp add: example_args_def no_failure_def mock_store_def example_hook_def example_parse_def
      restore_def restoreDataFromStorage_def restore_try_def storageAdapter_getItem_def)

text \<open>
  C4, amended. \<open>isLoading\<close> is false after every \<open>restore\<close>. When the store returns
  a text that is not empty and \<^verbatim>\<open>JSON.parse\<close> throws on it, \<open>restore\<close> resolves and
  changes nothing but the store's own state, \<open>isLoading\<close>, and the console, which
  gets exactly one line, that of a failed restore: \<open>isRestored\<close> and the form are as
  before and no callback is called.
\<close>

theorem malformed_record_contained:
  "isLoading (snd (restore a h)) = False \<and>
   (getItem (storage a) (key a) (store h) = (Returned (Some text), st) \<and> text \<noteq> [] \<and>
    JSON_parse a text = Inl e \<longrightarrow>
      restore a h =
        (Inr (),
         h\<lparr>store := st,
           console_error := console_error h @
             [''[FORM-STORAGE] Failed to restore data from storage: '' @ e],
           isLoading := False\<rparr>))"
proof -
  have loading: "isLoading (snd (restore a h)) = False"
    by (simp add: restore_def restoreDataFromStorage_not_loading)
  have failure: "getItem (storage a) (key a) (store h) = (Returned (Some text), st) \<and>
    text \<noteq> [] \<and> JSON_parse a text = Inl e \<longrightarrow>
      restore a h =
        (Inr (),
         h\<lparr>store := st,
           console_error := console_error h @
             [''[FORM-STORAGE] Failed to restore data from storage: '' @ e],
           isLoading := False\<rparr>)"
    by (auto simp: restore_def restoreDataFromStorage_def restore_try_def
        storageAdapter_getItem_def log_error_def)
  from loading failure show ?thesis by blast
qed

theorem malformed_record_contained_witness:
  "getItem (storage (example_args no_failure)) (key (example_args no_failure))
     (store (example_hook [''testKey'' \<mapsto> ''malformatted data''] [(''name'', JStr '''')])) =
       (Returned (Some ''malformatted data''), [''testKey'' \<mapsto> ''malformatted data'']) \<and>
   ''malformatted data'' \<noteq> [] \<and>
   JSON_parse (example_args no_failure) ''malformatted data'' =
     Inl ''SyntaxError: Unexpected token'' \<and>
   restore (example_args no_failure)
     (example_hook [''testKey'' \<mapsto> ''malformatted data''] [(''name'', JStr '''')]) =
     (Inr (),
      (example_hook [''testKey'' \<mapsto> ''malformatted data''] [(''name'', JStr '''')])
        \<lparr>console_error :=
           [''[FORM-STORAGE] Failed to restore data from storage: SyntaxError: Unexpected token'']\<rparr>)"
  using malformed_record_contained
    [of "example_args no_failure"
        "example_hook [''testKey'' \<mapsto> ''malformatted data''] [(''name'', JStr '''')]"
        "''malformatted data''" "[''testKey'' \<mapsto> ''malformatted data'']"
        "''SyntaxError: Unexpected token''"]
  by (simp add: example_args_def no_failure_def mock_store_def example_hook_def example_parse_def)

text \<open>
  What \<open>restore\<close> does with a record it can read: when the store returns a text that
  is not empty, \<^verbatim>\<open>JSON.parse\<close> accepts it, and selection and the transform in the
  restore direction succeed, every transformed field is written into the form,
  \<open>isRestored\<close> is set, \<open>isLoading\<close> ends false, and \<open>onRestore\<close>, if there is one,
  is called once, with the selected mapping as it was before the transform.
\<close>

lemma restore_present_record:
  assumes "getItem (storage a) (key a) (store h) = (Returned (Some text), st)"
    and "text \<noteq> []"
    and "JSON_parse a text = Inr parsedValue"
    and "filterIncludedOrExcludedFields parsedValue (included a) (excluded a) = Inr valuesToRestore"
    and "transformValues (JObj valuesToRestore) (serializer a) True = Inr deserializedValues"
  shows "form (snd (restore a h)) = write_fields a deserializedValues (form h) \<and>
     isRestored (snd (restore a h)) = True \<and>
     isLoading (snd (restore a h)) = False \<and>
     store (snd (restore a h)) = st \<and>
     callback_calls (snd (restore a h)) =
       callback_calls h @
         (case onRestore a of None \<Rightarrow> [] | Some f \<Rightarrow> [OnRestore valuesToRestore])"
  using assms
  by (auto simp: restore_def restoreDataFromStorage_def restore_try_def
      storageAdapter_getItem_def log_error_def invoke_def split: option.splits sum.splits)

text \<open>
  C1. With the stored record \<^verbatim>\<open>{"n":10}\<close> and a \<open>deserialize\<close> that subtracts
  one, the selected-and-transformed mapping holds 9, and 9 is what the form receives;
  but \<open>onRestore\<close> is called with 10, the value as stored, before the transform.
\<close>

theorem onRestore_gets_stored_values:
  \<open>transformValues (JObj [(''n'', JNum 10)]) [(''n'', plus_one)] True = Inr [(''n'', JNum 9)] \<and>
   form (snd (restore ((example_args no_failure)\<lparr>serializer := [(''n'', plus_one)]\<rparr>)
                (example_hook [''testKey'' \<mapsto> ''{"n":10}''] [(''n'', JNum 0)]))) =
     [(''n'', JNum 9)] \<and>
   callback_calls (snd (restore ((example_args no_failure)\<lparr>serializer := [(''n'', plus_one)]\<rparr>)
                (example_hook [''testKey'' \<mapsto> ''{"n":10}''] [(''n'', JNum 0)]))) =
     [OnRestore [(''n'', JNum 10)]]\<close>
  by (simp add: example_args_def no_failure_def mock_store_def example_hook_def example_parse_def
      restore_def restoreDataFromStorage_def restore_try_def storageAdapter_getItem_def
      filterIncludedOrExcludedFields_def transformValues_def get_property_def
      object_prototype_names_def plus_one_def write_fields_def invoke_def)

text \<open>
  Whenever selection, the transform and \<^verbatim>\<open>JSON.stringify\<close> succeed and the write to
  the store returns or fails with a value that converts to a string, \<open>save\<close> calls
  \<open>onSave\<close> with the selected mapping: a failed write does not keep it from the call.
\<close>

lemma save_calls_onSave_whatever_the_write:
  assumes "filterIncludedOrExcludedFields (getValues a (form h)) (included a) (excluded a) = Inr valuesToStore"
    and "transformValues (JObj valuesToStore) (serializer a) False = Inr serialized"
    and "JSON_stringify a (JObj serialized) = Inr text"
    and "fst (setItem (storage a) (key a) text (store h)) \<in>
           {Returned (), Threw (Thrown msg), Rejected (Thrown msg)}"
  shows "callback_calls (snd (save a h)) =
     callback_calls h @ (case onSave a of None \<Rightarrow> [] | Some f \<Rightarrow> [OnSave valuesToStore])"
  using assms
  by (cases "setItem (storage a) (key a) text (store h)")
     (auto simp: save_def saveToStorage_def save_try_def storageAdapter_setItem_def log_error_def
      invoke_def split: option.splits sum.splits)

text \<open>
  C2. With a store whose \<open>setItem\<close> rejects, \<open>save\<close> writes nothing, the shim
  reports the failed write on the console, and \<open>onSave\<close> is called all the same:
  the call of \<open>onSave\<close> does not wait on the success of the write.
\<close>

theorem onSave_after_failed_write:
  "callback_calls (snd (save (example_args all_fail) (example_hook Map.empty [(''name'', JStr ''Ann'')]))) =
     [OnSave [(''name'', JStr ''Ann'')]] \<and>
   store (snd (save (example_args all_fail) (example_hook Map.empty [(''name'', JStr ''Ann'')]))) ''testKey'' = None \<and>
   console_error (snd (save (example_args all_fail) (example_hook Map.empty [(''name'', JStr ''Ann'')]))) =
     [''[FORM-STORAGE] Failed to save data to storage: Error: Simulated save failure'']"
  by (simp add: example_args_def all_fail_def mock_store_def example_hook_def example_stringify_def
      save_def saveToStorage_def save_try_def storageAdapter_setItem_def log_error_def
      filterIncludedOrExcludedFields_def transformValues_def get_property_def
      object_prototype_names_def invoke_def)

section \<open>Properties of the debounce wrapper\<close>













end
